theory Spec2Isabelle
  imports Complex_Main "HOL-Library.Sublist"
begin

section \<open>Python values used by the fraud scorers\<close>

text \<open>
  A transaction record is a Python dict. A key of the dict is either missing or bound to a
  value; the values that matter here are \<open>None\<close> and strings. Strings are lists of
  8-bit characters, so the model covers ASCII text: \<open>str.upper\<close>, \<open>str.lower\<close> and
  \<open>str.isdigit\<close> act on the ASCII letters and digits and leave every other character
  alone.

  Scores are Python floats in the source and rational numbers here. The three scorers
  add a few constants, and their sums are kept exact: \<open>0.3\<close> is \<open>3/10\<close>. The aggregator
  divides, multiplies and rounds; its arithmetic is that of doubles, every operation
  rounded as the hardware rounds it.
\<close>

datatype pyval = PyNone | PyStr string

datatype py_error = ValueError | TypeError | AttributeError | KeyError | TimeoutError

text \<open>\<open>d.get(key, default)\<close> with a string default.\<close>

definition dict_get :: "pyval option \<Rightarrow> string \<Rightarrow> pyval" where
  "dict_get entry dflt = (case entry of None \<Rightarrow> PyStr dflt | Some v \<Rightarrow> v)"

text \<open>Truth value of a Python object: \<open>None\<close> and the empty string are false.\<close>

fun truthy :: "pyval \<Rightarrow> bool" where
  "truthy PyNone = False"
| "truthy (PyStr s) = (s \<noteq> [])"

definition lower_letters :: string where
  "lower_letters = ''abcdefghijklmnopqrstuvwxyz''"

definition upper_letters :: string where
  "upper_letters = ''ABCDEFGHIJKLMNOPQRSTUVWXYZ''"

definition upper_char :: "char \<Rightarrow> char" where
  "upper_char c = (case map_of (zip lower_letters upper_letters) c of Some d \<Rightarrow> d | None \<Rightarrow> c)"

definition lower_char :: "char \<Rightarrow> char" where
  "lower_char c = (case map_of (zip upper_letters lower_letters) c of Some d \<Rightarrow> d | None \<Rightarrow> c)"

definition upper :: "string \<Rightarrow> string" where
  "upper s = map upper_char s"

definition lower :: "string \<Rightarrow> string" where
  "lower s = map lower_char s"

text \<open>\<open>p in s\<close> on strings: \<open>p\<close> occurs in \<open>s\<close> as a contiguous block.\<close>

fun contains :: "string \<Rightarrow> string \<Rightarrow> bool" where
  "contains p [] = (p = [])"
| "contains p (c # cs) = (prefix p (c # cs) \<or> contains p cs)"

text \<open>\<open>x.upper()\<close> on a value that may be \<open>None\<close>.\<close>

fun py_upper :: "pyval \<Rightarrow> py_error + string" where
  "py_upper PyNone = Inl AttributeError"
| "py_upper (PyStr s) = Inr (upper s)"

subsection \<open>Parsing and printing amounts\<close>

definition is_digit :: "char \<Rightarrow> bool" where
  "is_digit c = (c \<in> set ''0123456789'')"

definition digit_val :: "char \<Rightarrow> nat" where
  "digit_val c = (case map_of (zip ''0123456789'' [0, 1, 2, 3, 4, 5, 6, 7, 8, 9]) c of
                    Some n \<Rightarrow> n | None \<Rightarrow> 0)"

definition digits_val :: "string \<Rightarrow> nat" where
  "digits_val s = foldl (\<lambda>n c. 10 * n + digit_val c) 0 s"

text \<open>
  \<open>float(s)\<close> for a string \<open>s\<close> of digits and decimal points, the only strings the amount
  scorer ever passes to it: digits with at most one point and at least one digit are a
  number, everything else is a ValueError. The value is the exact decimal, where Python
  rounds it to the nearest double.
\<close>

definition py_float :: "string \<Rightarrow> py_error + rat" where
  "py_float s =
     (let ip = takeWhile is_digit s; rest = dropWhile is_digit s
      in case rest of
           [] \<Rightarrow> if ip = [] then Inl ValueError else Inr (of_nat (digits_val ip))
         | c # fp \<Rightarrow>
             if c = CHR ''.'' \<and> list_all is_digit fp \<and> (ip \<noteq> [] \<or> fp \<noteq> [])
             then Inr (of_nat (digits_val (ip @ fp)) / 10 ^ length fp)
             else Inl ValueError)"

definition digit_char :: "nat \<Rightarrow> char" where
  "digit_char n = ''0123456789'' ! (n mod 10)"

fun show_nat :: "nat \<Rightarrow> string" where
  "show_nat n = (if n < 10 then [digit_char n] else show_nat (n div 10) @ [digit_char (n mod 10)])"

declare show_nat.simps [simp del]

fun frac_digits :: "nat \<Rightarrow> rat \<Rightarrow> string" where
  "frac_digits 0 f = []"
| "frac_digits (Suc k) f =
     (if f = 0 then []
      else let d = nat \<lfloor>f * 10\<rfloor> in digit_char d # frac_digits k (f * 10 - of_nat d))"

text \<open>
  The text an f-string prints for a non-negative float: the integer part, a point and the
  fractional digits (\<open>0\<close> when there are none), as \<open>15000.0\<close> or \<open>1234.56\<close>. At most 17
  fractional digits are printed and no exponent form is used.
\<close>

definition float_repr :: "rat \<Rightarrow> string" where
  "float_repr q =
     (let fd = frac_digits 17 (q - of_int \<lfloor>q\<rfloor>)
      in show_nat (nat \<lfloor>q\<rfloor>) @ ''.'' @ (if fd = [] then ''0'' else fd))"

text \<open>\<open>a % d\<close> for a positive divisor: the remainder has the sign of the divisor.\<close>

definition py_mod :: "rat \<Rightarrow> rat \<Rightarrow> rat" where
  "py_mod a d = a - d * of_int \<lfloor>a / d\<rfloor>"

section \<open>Records and score results\<close>

text \<open>
  The result dict of a scorer has the keys \<open>agent\<close>, \<open>risk_score\<close> and \<open>fraud_reasons\<close>;
  \<open>_process_message\<close> adds \<open>message_id\<close> to a result and \<open>error\<close> to the result it
  builds when a scorer raises. The key \<open>message_id\<close> of a result is the field
  \<open>result_message_id\<close> here, and \<open>error\<close> holds the exception rather than its text.
\<close>

record score_result =
  agent :: string
  risk_score :: rat
  fraud_reasons :: "string list"
  result_message_id :: "pyval option"
  error :: "py_error option"

text \<open>
  The record dict: five input keys, each missing (\<open>None\<close>) or bound, and the four keys
  the coordinator writes. The key \<open>fraud_reasons\<close> of a record is the field
  \<open>message_fraud_reasons\<close> here.
\<close>

record message =
  message_id :: "pyval option"
  amount :: "pyval option"
  sender_bic :: "pyval option"
  receiver_bic :: "pyval option"
  remittance_info :: "pyval option"
  fraud_status :: "string option"
  fraud_score :: "rat option"
  message_fraud_reasons :: "string list option"
  fraud_analysis :: "score_result list option"

text \<open>
  Every rule of a scorer has the shape
  \<open>if cond: risk_score += weight; fraud_reasons.append(reason)\<close>
  on the two local variables \<open>risk_score\<close> and \<open>fraud_reasons\<close>.
\<close>

definition flag :: "bool \<Rightarrow> rat \<Rightarrow> string \<Rightarrow> rat \<times> string list \<Rightarrow> rat \<times> string list" where
  "flag cond weight reason acc =
     (if cond then (fst acc + weight, snd acc @ [reason]) else acc)"

text \<open>The dict every scorer returns, with \<open>min(risk_score, 1.0)\<close> as its score.\<close>

definition mk_result :: "string \<Rightarrow> rat \<times> string list \<Rightarrow> score_result" where
  "mk_result name acc =
     \<lparr>agent = name, risk_score = min (fst acc) 1, fraud_reasons = snd acc,
      result_message_id = None, error = None\<rparr>"

section \<open>FraudAmountDetectionAgent\<close>

text \<open>
  The body of the \<open>try\<close> block: the amount string is filtered to digits and points and
  parsed; iterating over \<open>None\<close> is a TypeError. The three rules then add to the score.
  Both exceptions are caught by the scorer, which then returns score 0 and no reasons.
\<close>

definition amount_chars :: "string \<Rightarrow> string" where
  "amount_chars s = filter (\<lambda>c. is_digit c \<or> c = CHR ''.'') s"

definition parse_amount :: "pyval \<Rightarrow> py_error + rat" where
  "parse_amount v = (case v of PyNone \<Rightarrow> Inl TypeError | PyStr s \<Rightarrow> py_float (amount_chars s))"

definition amount_rules :: "rat \<Rightarrow> rat \<times> string list" where
  "amount_rules a =
     flag (a > 100000 \<and> py_mod a 1 \<noteq> 0) (1/10)
          ''Large amount with unusual decimal precision''
       (flag (py_mod a 1000 = 0 \<and> a > 0) (2/10) (''Suspiciously round amount: '' @ float_repr a)
          (flag (a > 10000) (3/10) (''High amount transaction: '' @ float_repr a)
             (0, [])))"

definition amount_analyze :: "message \<Rightarrow> py_error + score_result" where
  "amount_analyze m =
     Inr (mk_result ''FraudAmountDetectionAgent''
            (case parse_amount (dict_get (amount m) ''0'') of
               Inl e \<Rightarrow> (0, [])
             | Inr a \<Rightarrow> amount_rules a))"

section \<open>FraudPatternDetectionAgent\<close>

definition high_risk_patterns :: "string list" where
  "high_risk_patterns = [''TEST'', ''FAKE'', ''DEMO'', ''999'', ''000000'']"

definition suspicious_keywords :: "string list" where
  "suspicious_keywords = [''urgent'', ''immediately'', ''secret'', ''confidential'']"

text \<open>
  The condition of the pattern loop, \<open>pattern in sender_bic.upper() or pattern in
  receiver_bic.upper()\<close>: \<open>or\<close> evaluates its right operand only when the left one is false.
\<close>

definition bic_matches :: "string \<Rightarrow> pyval \<Rightarrow> pyval \<Rightarrow> py_error + bool" where
  "bic_matches p sv rv =
     (case py_upper sv of
        Inl e \<Rightarrow> Inl e
      | Inr su \<Rightarrow>
          if contains p su then Inr True
          else (case py_upper rv of Inl e \<Rightarrow> Inl e | Inr ru \<Rightarrow> Inr (contains p ru)))"

definition bic_reason :: "string \<Rightarrow> string" where
  "bic_reason p = ''Test/fake pattern detected in BIC: '' @ p"

fun pattern_loop :: "string list \<Rightarrow> pyval \<Rightarrow> pyval \<Rightarrow> rat \<times> string list
                       \<Rightarrow> py_error + rat \<times> string list" where
  "pattern_loop [] sv rv acc = Inr acc"
| "pattern_loop (p # ps) sv rv acc =
     (case bic_matches p sv rv of
        Inl e \<Rightarrow> Inl e
      | Inr hit \<Rightarrow> pattern_loop ps sv rv (flag hit (4/10) (bic_reason p) acc))"

definition same_bic :: "pyval \<Rightarrow> pyval \<Rightarrow> rat \<times> string list \<Rightarrow> rat \<times> string list" where
  "same_bic sv rv acc = flag (truthy sv \<and> sv = rv) (5/10) ''Same sender and receiver BIC'' acc"

definition keyword_reason :: "string \<Rightarrow> string" where
  "keyword_reason k = ''Suspicious keyword in remittance: '' @ k"

fun keyword_loop :: "string list \<Rightarrow> string \<Rightarrow> rat \<times> string list \<Rightarrow> rat \<times> string list" where
  "keyword_loop [] text acc = acc"
| "keyword_loop (k # ks) text acc =
     keyword_loop ks text (flag (contains k text) (2/10) (keyword_reason k) acc)"

text \<open>\<open>v or ''\<close>: a false value (\<open>None\<close> or the empty string) gives the empty string.\<close>

fun or_empty :: "pyval \<Rightarrow> string" where
  "or_empty PyNone = []"
| "or_empty (PyStr s) = s"

text \<open>\<open>message.get('remittance_info', '') or ''\<close>, then \<open>.lower()\<close>.\<close>

definition remittance_text :: "message \<Rightarrow> string" where
  "remittance_text m = lower (or_empty (dict_get (remittance_info m) []))"

text \<open>The checks on the two BICs, up to the point where the remittance text is read.\<close>

definition bic_checks :: "message \<Rightarrow> py_error + rat \<times> string list" where
  "bic_checks m =
     (let sv = dict_get (sender_bic m) []; rv = dict_get (receiver_bic m) []
      in case pattern_loop high_risk_patterns sv rv (0, []) of
           Inl e \<Rightarrow> Inl e
         | Inr acc \<Rightarrow> Inr (same_bic sv rv acc))"

definition pattern_raw :: "message \<Rightarrow> py_error + rat \<times> string list" where
  "pattern_raw m =
     (case bic_checks m of
        Inl e \<Rightarrow> Inl e
      | Inr acc \<Rightarrow> Inr (keyword_loop suspicious_keywords (remittance_text m) acc))"

definition pattern_analyze :: "message \<Rightarrow> py_error + score_result" where
  "pattern_analyze m =
     (case pattern_raw m of
        Inl e \<Rightarrow> Inl e
      | Inr acc \<Rightarrow> Inr (mk_result ''FraudPatternDetectionAgent'' acc))"

section \<open>FraudGeographicRiskAgent\<close>

definition high_risk_countries :: "string set" where
  "high_risk_countries =
     {''IR'', ''KP'', ''SY'', ''CU'', ''VE'', ''RU'', ''BY'', ''AF'', ''IQ'', ''LB'',
      ''SD'', ''ZW'', ''MM'', ''YE'', ''SO'', ''CD'', ''CG'', ''HT'', ''TG'', ''GN''}"

definition medium_risk_countries :: "string set" where
  "medium_risk_countries =
     {''CN'', ''HK'', ''SG'', ''AE'', ''SA'', ''QA'', ''KW'', ''BH'', ''OM'', ''JO'',
      ''TR'', ''EG'', ''MA'', ''TN'', ''DZ'', ''LY'', ''PK'', ''BD'', ''LK'', ''NP''}"

text \<open>
  \<open>bic[4:6].upper() if len(bic) >= 6 else ''\<close>. \<open>len(None)\<close> is a TypeError, which the
  \<open>except (IndexError, AttributeError)\<close> of the scorer does not catch.
\<close>

fun country_code :: "pyval \<Rightarrow> py_error + string" where
  "country_code PyNone = Inl TypeError"
| "country_code (PyStr s) = Inr (if length s \<ge> 6 then upper (take 2 (drop 4 s)) else [])"

definition unusual_combination :: "string \<Rightarrow> string \<Rightarrow> bool" where
  "unusual_combination sc rc =
     (let sender_high_risk = sc \<in> high_risk_countries;
          sender_med_risk = sc \<in> medium_risk_countries;
          receiver_high_risk = rc \<in> high_risk_countries;
          receiver_med_risk = rc \<in> medium_risk_countries
      in (sender_high_risk \<and> \<not> receiver_high_risk \<and> \<not> receiver_med_risk) \<or>
         (receiver_high_risk \<and> \<not> sender_high_risk \<and> \<not> sender_med_risk))"

definition combination_reason :: "string \<Rightarrow> string \<Rightarrow> string" where
  "combination_reason sc rc = ''Unusual risk level combination: '' @ sc @ '' ? '' @ rc"

definition geo_rules :: "string \<Rightarrow> string \<Rightarrow> rat \<times> string list" where
  "geo_rules sc rc =
     flag (sc \<noteq> [] \<and> rc \<noteq> [] \<and> unusual_combination sc rc) (3/10) (combination_reason sc rc)
       (flag (rc \<in> medium_risk_countries) (2/10) (''Medium-risk receiver country: '' @ rc)
          (flag (sc \<in> medium_risk_countries) (2/10) (''Medium-risk sender country: '' @ sc)
             (flag (rc \<in> high_risk_countries) (4/10) (''High-risk receiver country: '' @ rc)
                (flag (sc \<in> high_risk_countries) (4/10) (''High-risk sender country: '' @ sc)
                   (0, [])))))"

definition geo_raw :: "message \<Rightarrow> py_error + rat \<times> string list" where
  "geo_raw m =
     (case country_code (dict_get (sender_bic m) []) of
        Inl e \<Rightarrow> Inl e
      | Inr sc \<Rightarrow>
          (case country_code (dict_get (receiver_bic m) []) of
             Inl e \<Rightarrow> Inl e
           | Inr rc \<Rightarrow> Inr (geo_rules sc rc)))"

definition geo_analyze :: "message \<Rightarrow> py_error + score_result" where
  "geo_analyze m =
     (case geo_raw m of
        Inl e \<Rightarrow> Inl e
      | Inr acc \<Rightarrow> Inr (mk_result ''FraudGeographicRiskAgent'' acc))"

section \<open>FraudAggAgent\<close>

record aggregate_verdict =
  is_fraudulent :: bool
  confidence :: rat
  total_risk_score :: rat
  aggregated_reasons :: "string list"

definition threshold :: rat where
  "threshold = 5/10"

subsection \<open>Double-precision arithmetic\<close>

text \<open>
  The aggregator computes with Python floats, which are IEEE 754 doubles: every sum,
  product and quotient is the exact result rounded to the nearest double, ties to the even
  significand. A double is modelled by the rational number it stands for.

  The doubles around a positive \<open>x\<close> are the multiples of \<open>quantum x\<close>: with \<open>2 ^ e \<le> x < 2 ^ (e + 1)\<close>
  the quantum is \<open>2 ^ (e - 52)\<close>, and below \<open>2 ^ -1022\<close> it is \<open>2 ^ -1074\<close>. \<open>binade x\<close> finds
  the exponent \<open>e\<close> by halving or doubling \<open>x\<close> until it lies in \<open>[1, 2)\<close>; 2200 steps cover
  every quotient and product of two doubles. Infinities and NaN are not modelled: the
  scores that are aggregated lie between 0 and 1, and no sum, mean or percentage of such
  scores overflows.
\<close>

definition round_half_even :: "rat \<Rightarrow> int" where
  "round_half_even q =
     (let f = \<lfloor>q\<rfloor>; d = q - of_int f
      in if d < 1/2 then f else if d > 1/2 then f + 1 else if even f then f else f + 1)"

fun binade_search :: "nat \<Rightarrow> rat \<Rightarrow> int \<Rightarrow> int" where
  "binade_search 0 x e = e"
| "binade_search (Suc n) x e =
     (if x \<ge> 2 then binade_search n (x / 2) (e + 1)
      else if x < 1 then binade_search n (x * 2) (e - 1)
      else e)"

definition binade :: "rat \<Rightarrow> int" where
  "binade x = binade_search 2200 x 0"

definition quantum :: "rat \<Rightarrow> rat" where
  "quantum x = 2 powi (max (binade \<bar>x\<bar>) (- 1022) - 52)"

text \<open>The double nearest to the rational \<open>x\<close>.\<close>

definition fl :: "rat \<Rightarrow> rat" where
  "fl x = of_int (round_half_even (x / quantum x)) * quantum x"


definition float_add :: "rat \<Rightarrow> rat \<Rightarrow> rat" where
  "float_add a b = fl (a + b)"

definition float_mul :: "rat \<Rightarrow> rat \<Rightarrow> rat" where
  "float_mul a b = fl (a * b)"

definition float_div :: "rat \<Rightarrow> rat \<Rightarrow> rat" where
  "float_div a b = fl (a / b)"

text \<open>The conversion of an \<open>int\<close> operand to a float, as in \<open>total_risk / len(...)\<close>.\<close>

definition float_of_nat :: "nat \<Rightarrow> rat" where
  "float_of_nat n = fl (of_nat n)"

text \<open>
  \<open>round(x, ndigits)\<close> on a float: the decimal with \<open>ndigits\<close> places nearest to the exact
  value of \<open>x\<close>, ties to the even last digit, and then the double nearest to that decimal.
\<close>

definition py_round :: "rat \<Rightarrow> nat \<Rightarrow> rat" where
  "py_round x ndigits = fl (of_int (round_half_even (x * 10 ^ ndigits)) / 10 ^ ndigits)"

definition prefixed :: "string \<Rightarrow> string \<Rightarrow> string" where
  "prefixed agent_name reason = ''['' @ agent_name @ ''] '' @ reason"

text \<open>The two nested \<open>for\<close> loops that fill \<open>all_reasons\<close>.\<close>

definition all_reasons :: "score_result list \<Rightarrow> string list" where
  "all_reasons fraud_results =
     foldl (\<lambda>acc result.
              foldl (\<lambda>acc' reason. acc' @ [prefixed (agent result) reason]) acc
                    (fraud_reasons result))
           [] fraud_results"

text \<open>
  \<open>sum(...)\<close> starts from \<open>0\<close> and adds the scores from left to right, each addition
  rounded to a double. This is the sum of CPython up to version 3.11; from 3.12 on \<open>sum\<close>
  carries a correction term for the rounding errors.
\<close>

definition total_risk :: "score_result list \<Rightarrow> rat" where
  "total_risk fraud_results = foldl (\<lambda>t r. float_add t (risk_score r)) 0 fraud_results"

definition aggregate_results :: "score_result list \<Rightarrow> aggregate_verdict" where
  "aggregate_results fraud_results =
     (if fraud_results = []
      then \<lparr>is_fraudulent = False, confidence = 0, total_risk_score = 0,
            aggregated_reasons = []\<rparr>
      else let avg_risk = float_div (total_risk fraud_results)
                            (float_of_nat (length fraud_results))
           in \<lparr>is_fraudulent = (avg_risk \<ge> threshold),
               confidence = py_round (float_mul avg_risk 100) 2,
               total_risk_score = py_round avg_risk 3,
               aggregated_reasons = all_reasons fraud_results\<rparr>)"

section \<open>ParallelizationPattern\<close>

datatype fraud_agent =
  FraudAmountDetectionAgent | FraudPatternDetectionAgent | FraudGeographicRiskAgent

fun analyze :: "fraud_agent \<Rightarrow> message \<Rightarrow> py_error + score_result" where
  "analyze FraudAmountDetectionAgent m = amount_analyze m"
| "analyze FraudPatternDetectionAgent m = pattern_analyze m"
| "analyze FraudGeographicRiskAgent m = geo_analyze m"

fun class_name :: "fraud_agent \<Rightarrow> string" where
  "class_name FraudAmountDetectionAgent = ''FraudAmountDetectionAgent''"
| "class_name FraudPatternDetectionAgent = ''FraudPatternDetectionAgent''"
| "class_name FraudGeographicRiskAgent = ''FraudGeographicRiskAgent''"

definition list_of_agents :: "fraud_agent list" where
  "list_of_agents =
     [FraudAmountDetectionAgent, FraudPatternDetectionAgent, FraudGeographicRiskAgent]"

text \<open>
  \<open>_process_message\<close>: the scorer's result with the record's identifier added, or, when
  the scorer raises, a result with score 0 and no reasons under the scorer's class name.
\<close>

definition process_message :: "message \<Rightarrow> fraud_agent \<Rightarrow> score_result" where
  "process_message m a =
     (case analyze a m of
        Inr result \<Rightarrow> result\<lparr>result_message_id := Some (dict_get (message_id m) ''unknown'')\<rparr>
      | Inl e \<Rightarrow>
          \<lparr>agent = class_name a, risk_score = 0, fraud_reasons = [],
           result_message_id = None, error = Some e\<rparr>)"

text \<open>
  A future of the thread pool holds the value its task returns. Whether
  \<open>future.result(timeout=5)\<close> gets that value or raises a timeout depends on the
  scheduling of the pool, which is an input of the model: \<open>sched i j\<close> tells whether the
  task of the \<open>j\<close>-th scorer on the \<open>i\<close>-th record of the batch is done when the
  coordinator's wait for it ends. \<open>_process_message\<close> catches every exception, so a
  timeout is the only way the wait can fail.
\<close>

record future =
  task_value :: score_result
  in_time :: bool

definition future_result :: "future \<Rightarrow> py_error + score_result" where
  "future_result f = (if in_time f then Inr (task_value f) else Inl TimeoutError)"

definition submit_agents :: "(nat \<Rightarrow> nat \<Rightarrow> bool) \<Rightarrow> nat \<Rightarrow> message \<Rightarrow> future list" where
  "submit_agents sched i m =
     map (\<lambda>(j, a). \<lparr>task_value = process_message m a, in_time = sched i j\<rparr>)
         (enumerate 0 list_of_agents)"

text \<open>
  \<open>d[key] = value\<close> on a dict, kept as a list of pairs in insertion order: a key that is
  already there keeps its place and gets the new value, a new key goes to the end.
\<close>

fun dict_set :: "'k \<Rightarrow> 'v \<Rightarrow> ('k \<times> 'v) list \<Rightarrow> ('k \<times> 'v) list" where
  "dict_set k v [] = [(k, v)]"
| "dict_set k v ((k', v') # d) = (if k' = k then (k', v) # d else (k', v') # dict_set k v d)"

text \<open>
  The submit loop. \<open>message['message_id']\<close> raises KeyError when the record has no
  identifier, and the exception leaves \<open>process_batch_parallel\<close>.
\<close>

fun submit_all :: "(nat \<Rightarrow> nat \<Rightarrow> bool) \<Rightarrow> nat \<Rightarrow> message list
                     \<Rightarrow> (pyval \<times> message \<times> future list) list
                     \<Rightarrow> py_error + (pyval \<times> message \<times> future list) list" where
  "submit_all sched i [] future_to_msg = Inr future_to_msg"
| "submit_all sched i (m # ms) future_to_msg =
     (let agent_futures = submit_agents sched i m
      in case message_id m of
           None \<Rightarrow> Inl KeyError
         | Some k \<Rightarrow> submit_all sched (Suc i) ms (dict_set k (m, agent_futures) future_to_msg))"

text \<open>
  The wait loop of one record: a result that arrives is appended to \<open>agent_results\<close>, an
  exception of the wait is printed and nothing is appended.
\<close>

fun collect_results :: "future list \<Rightarrow> score_result list" where
  "collect_results [] = []"
| "collect_results (f # fs) =
     (case future_result f of
        Inr result \<Rightarrow> result # collect_results fs
      | Inl e \<Rightarrow> collect_results fs)"

text \<open>The aggregator object is always there, so the \<open>PENDING\<close> branch is never taken.\<close>

definition annotate :: "message \<Rightarrow> score_result list \<Rightarrow> message" where
  "annotate m agent_results =
     (let aggregated = aggregate_results agent_results
      in m\<lparr>fraud_status := Some (if is_fraudulent aggregated then ''FRAUDULENT'' else ''CLEAN''),
           fraud_score := Some (confidence aggregated),
           message_fraud_reasons := Some (aggregated_reasons aggregated),
           fraud_analysis := Some agent_results\<rparr>)"

definition process_batch_parallel ::
    "(nat \<Rightarrow> nat \<Rightarrow> bool) \<Rightarrow> message list \<Rightarrow> py_error + message list" where
  "process_batch_parallel sched messages =
     (case submit_all sched 0 messages [] of
        Inl e \<Rightarrow> Inl e
      | Inr future_to_msg \<Rightarrow>
          Inr (map (\<lambda>(msg_id, m, futures). annotate m (collect_results futures)) future_to_msg))"

section \<open>The statements of the specification\<close>



text \<open>
  The flagged substrings that occur in the upper-cased sender code or in the upper-cased
  receiver code.
\<close>

definition hits :: "string \<Rightarrow> string \<Rightarrow> string list \<Rightarrow> string list" where
  "hits s r ps = filter (\<lambda>p. contains p (upper s) \<or> contains p (upper r)) ps"

text \<open>
  The asymmetry bonus of the geographic scorer: both country codes are there, one is
  high-risk and the other is in neither set.
\<close>

definition bonus_applies :: "string \<Rightarrow> string \<Rightarrow> bool" where
  "bonus_applies sc rc \<longleftrightarrow>
     sc \<noteq> [] \<and> rc \<noteq> [] \<and>
     ((sc \<in> high_risk_countries \<and> rc \<notin> high_risk_countries \<and> rc \<notin> medium_risk_countries) \<or>
      (rc \<in> high_risk_countries \<and> sc \<notin> high_risk_countries \<and> sc \<notin> medium_risk_countries))"

text \<open>What the four membership rules of the geographic scorer add up to.\<close>

definition side_scores :: "string \<Rightarrow> string \<Rightarrow> rat" where
  "side_scores sc rc =
     (if sc \<in> high_risk_countries then 4/10 else 0)
   + (if rc \<in> high_risk_countries then 4/10 else 0)
   + (if sc \<in> medium_risk_countries then 2/10 else 0)
   + (if rc \<in> medium_risk_countries then 2/10 else 0)"

text \<open>The result of the amount scorer when no rule fires.\<close>

definition zero_amount_result :: score_result where
  "zero_amount_result =
     \<lparr>agent = ''FraudAmountDetectionAgent'', risk_score = 0, fraud_reasons = [],
      result_message_id = None, error = None\<rparr>"

text \<open>
  The slot the specification asks for when the wait for a scorer fails: the scorer's name,
  score 0 and no reasons.
\<close>

definition zero_slot :: "fraud_agent \<Rightarrow> score_result" where
  "zero_slot a =
     \<lparr>agent = class_name a, risk_score = 0, fraud_reasons = [],
      result_message_id = None, error = None\<rparr>"

section \<open>Example records\<close>

definition new_message :: "pyval option \<Rightarrow> string \<Rightarrow> string \<Rightarrow> string \<Rightarrow> pyval option \<Rightarrow> message" where
  "new_message ident amt sender receiver memo =
     \<lparr>message_id = ident, amount = Some (PyStr amt), sender_bic = Some (PyStr sender),
      receiver_bic = Some (PyStr receiver), remittance_info = memo,
      fraud_status = None, fraud_score = None, message_fraud_reasons = None,
      fraud_analysis = None\<rparr>"

text \<open>The record of \<open>test_agents\<close> in the source.\<close>

definition test_message :: message where
  "test_message =
     new_message (Some (PyStr ''TEST001'')) ''15000.00 USD'' ''TESTUS33XXX'' ''FAKEGB22XXX''
       (Some (PyStr ''Urgent payment needed immediately''))"

definition bad_amount :: message where
  "bad_amount = new_message (Some (PyStr ''M1'')) ''1.2.3 USD'' ''BANKUS33'' ''BANKGB22'' None"

definition both_test :: message where
  "both_test =
     new_message (Some (PyStr ''M2'')) ''250.00 USD'' ''TESTUS33'' ''TESTGB22''
       (Some (PyStr ''invoice 42''))"

definition short_receiver :: message where
  "short_receiver = new_message (Some (PyStr ''M3'')) ''250.00 USD'' ''BANKIRXX'' ''AB'' None"

definition plain_receiver :: message where
  "plain_receiver =
     new_message (Some (PyStr ''M4'')) ''250.00 USD'' ''BANKIRXX'' ''BANKUS33'' None"

definition same_bank :: message where
  "same_bank = new_message (Some (PyStr ''M5'')) ''100.00 USD'' ''BANKIRXX'' ''BANKIRXX'' None"

definition same_bank_pattern :: score_result where
  "same_bank_pattern =
     \<lparr>agent = ''FraudPatternDetectionAgent'', risk_score = 1/2,
      fraud_reasons = [''Same sender and receiver BIC''],
      result_message_id = Some (PyStr ''M5''), error = None\<rparr>"

definition same_bank_geo :: score_result where
  "same_bank_geo =
     \<lparr>agent = ''FraudGeographicRiskAgent'', risk_score = 4/5,
      fraud_reasons = [''High-risk sender country: IR'', ''High-risk receiver country: IR''],
      result_message_id = Some (PyStr ''M5''), error = None\<rparr>"

definition dup_first :: message where
  "dup_first = new_message (Some (PyStr ''M6'')) ''100.00 USD'' ''BANKUS33'' ''BANKGB22'' None"

definition dup_second :: message where
  "dup_second = new_message (Some (PyStr ''M6'')) ''7.00 EUR'' ''BANKDE44'' ''BANKFR55'' None"

definition no_id :: message where
  "no_id = new_message None ''7.00 EUR'' ''BANKDE44'' ''BANKFR55'' None"

definition null_memo :: message where
  "null_memo =
     new_message (Some (PyStr ''M7'')) ''250.00 USD'' ''TESTUS33'' ''BANKGB22'' (Some PyNone)"

text \<open>Three results whose scores are the doubles \<open>0.6\<close>, \<open>0.7\<close> and \<open>0.2\<close>.\<close>

definition score_06 :: score_result where
  "score_06 =
     \<lparr>agent = ''FraudAmountDetectionAgent'',
      risk_score = 5404319552844595 / 9007199254740992,
      fraud_reasons = [], result_message_id = None, error = None\<rparr>"

definition score_07 :: score_result where
  "score_07 =
     \<lparr>agent = ''FraudPatternDetectionAgent'',
      risk_score = 3152519739159347 / 4503599627370496,
      fraud_reasons = [], result_message_id = None, error = None\<rparr>"

definition score_02 :: score_result where
  "score_02 =
     \<lparr>agent = ''FraudGeographicRiskAgent'',
      risk_score = 3602879701896397 / 18014398509481984,
      fraud_reasons = [], result_message_id = None, error = None\<rparr>"

text \<open>Two schedules: every task is done in time; the amount scorer's task never is.\<close>

definition all_in_time :: "nat \<Rightarrow> nat \<Rightarrow> bool" where
  "all_in_time i j = True"

definition amount_times_out :: "nat \<Rightarrow> nat \<Rightarrow> bool" where
  "amount_times_out i j = (j \<noteq> 0)"

section \<open>Rounding to a double\<close>

lemma powi2_less_D: "(2::rat) powi a < 2 powi b \<Longrightarrow> a < b"
proof (rule ccontr)
  assume less: "(2::rat) powi a < 2 powi b" and "\<not> a < b"
  then have "b \<le> a"
    by simp
  then have "(2::rat) powi b \<le> 2 powi a"
    by (intro power_int_increasing) simp_all
  with less show False
    by simp
qed

text \<open>The search finds the exponent of the power of two at or below \<open>x\<close>.\<close>

lemma binade_search_eq:
  "2 powi d \<le> x \<Longrightarrow> x < 2 powi (d + 1) \<Longrightarrow> nat \<bar>d\<bar> \<le> n \<Longrightarrow> binade_search n x e = e + d"
proof (induction n arbitrary: x e d)
  case 0
  then show ?case by simp
next
  case (Suc n)
  consider (big) "x \<ge> 2" | (small) "x < 1" | (mid) "1 \<le> x" "x < 2"
    by linarith
  then show ?case
  proof cases
    case big
    have "(2::rat) powi 1 \<le> x"
      using big by simp
    then have "(2::rat) powi 1 < 2 powi (d + 1)"
      using Suc.prems(2) by (rule order_le_less_trans)
    then have d: "1 \<le> d"
      using powi2_less_D by fastforce
    have "2 powi (d - 1) \<le> x / 2" "x / 2 < 2 powi (d - 1 + 1)"
      using Suc.prems(1,2) by (simp_all add: power_int_diff power_int_add)
    moreover have "nat \<bar>d - 1\<bar> \<le> n"
      using d Suc.prems(3) by simp
    ultimately have "binade_search n (x / 2) (e + 1) = e + 1 + (d - 1)"
      by (rule Suc.IH)
    then show ?thesis
      using big by simp
  next
    case small
    have "x < (2::rat) powi 0"
      using small by simp
    with Suc.prems(1) have "(2::rat) powi d < 2 powi 0"
      by (rule order_le_less_trans)
    then have d: "d \<le> - 1"
      using powi2_less_D by fastforce
    have "2 powi (d + 1) \<le> x * 2" "x * 2 < 2 powi (d + 1 + 1)"
      using Suc.prems(1,2) by (simp_all add: power_int_add)
    moreover have "nat \<bar>d + 1\<bar> \<le> n"
      using d Suc.prems(3) by simp
    ultimately have "binade_search n (x * 2) (e - 1) = e - 1 + (d + 1)"
      by (rule Suc.IH)
    then show ?thesis
      using small by simp
  next
    case mid
    have "x < (2::rat) powi 1" "(2::rat) powi 0 \<le> x"
      using mid by simp_all
    with Suc.prems(1,2) have "(2::rat) powi d < 2 powi 1" "(2::rat) powi 0 < 2 powi (d + 1)"
      by (meson order_le_less_trans)+
    then have "d < 1" "0 < d + 1"
      using powi2_less_D by blast+
    then have "d = 0"
      by simp
    then show ?thesis
      using mid by simp
  qed
qed

lemma binade_eq:
  assumes "2 powi e \<le> x" "x < 2 powi (e + 1)" "- 2200 \<le> e" "e \<le> 2200"
  shows "binade x = e"
proof -
  have "nat \<bar>e\<bar> \<le> 2200"
    using assms(3,4) by simp
  with assms(1,2) have "binade_search 2200 x 0 = 0 + e"
    by (rule binade_search_eq)
  then show ?thesis
    by (simp add: binade_def)
qed



lemma round_half_even_eq:
  assumes "of_int k - 1/2 < q" "q < of_int k + 1/2"
  shows "round_half_even q = k"
proof -
  have "\<lfloor>q\<rfloor> = k \<or> \<lfloor>q\<rfloor> = k - 1"
    using assms by linarith
  then show ?thesis
    using assms unfolding round_half_even_def Let_def by auto
qed

lemma round_half_even_tie:
  assumes "q = of_int k + 1/2"
  shows "round_half_even q = (if even k then k else k + 1)"
proof -
  have "\<lfloor>q\<rfloor> = k"
    using assms by linarith
  then show ?thesis
    using assms unfolding round_half_even_def Let_def by simp
qed

text \<open>
  The integer nearest to a value, with ties to the even one, is determined by these two
  properties.
\<close>

lemma adjacent_tie:
  fixes x :: rat
  assumes "\<bar>x - of_int k\<bar> \<le> 1/2" "\<bar>x - of_int (k + 1)\<bar> \<le> 1/2"
  shows "x = of_int k + 1/2"
proof -
  have "x \<le> of_int k + 1/2"
    using assms(1) by linarith
  moreover have "of_int k + 1/2 \<le> x"
    using assms(2) unfolding of_int_add of_int_1 by linarith
  ultimately show ?thesis
    by simp
qed

lemma nearest_even_unique:
  fixes k k' :: int and x :: rat
  assumes "\<bar>x - of_int k\<bar> \<le> 1/2" "\<bar>x - of_int k\<bar> = 1/2 \<longrightarrow> even k"
    and "\<bar>x - of_int k'\<bar> \<le> 1/2" "\<bar>x - of_int k'\<bar> = 1/2 \<longrightarrow> even k'"
  shows "k = k'"
proof (rule ccontr)
  assume ne: "k \<noteq> k'"
  have "\<bar>(of_int k :: rat) - of_int k'\<bar> \<le> 1"
    using assms(1,3) by linarith
  then have "\<bar>k - k'\<bar> \<le> 1"
    by (metis of_int_1 of_int_abs of_int_diff of_int_le_iff)
  with ne consider (up) "k' = k + 1" | (down) "k = k' + 1"
    by linarith
  then show False
  proof cases
    case up
    then have "x = of_int k + 1/2"
      using assms(1,3) by (intro adjacent_tie) simp_all
    then have "\<bar>x - of_int k\<bar> = 1/2" "\<bar>x - of_int k'\<bar> = 1/2"
      using up by simp_all
    with assms(2,4) up show False
      by simp
  next
    case down
    then have "x = of_int k' + 1/2"
      using assms(1,3) by (intro adjacent_tie) simp_all
    then have "\<bar>x - of_int k'\<bar> = 1/2" "\<bar>x - of_int k\<bar> = 1/2"
      using down by simp_all
    with assms(2,4) down show False
      by simp
  qed
qed

text \<open>
  How to compute \<open>fl x\<close>: find the binade of \<open>x\<close> and the integer nearest to \<open>x\<close> in units of
  the quantum.
\<close>

lemma quantum_eq:
  assumes "2 powi e \<le> \<bar>x\<bar>" "\<bar>x\<bar> < 2 powi (e + 1)" "- 1022 \<le> e" "e \<le> 1023"
  shows "quantum x = 2 powi (e - 52)"
proof -
  have "binade \<bar>x\<bar> = e"
    using assms by (intro binade_eq) simp_all
  then show ?thesis
    using assms(3) by (simp add: quantum_def)
qed

lemma fl_eq:
  assumes "2 powi e \<le> \<bar>x\<bar>" "\<bar>x\<bar> < 2 powi (e + 1)" "- 1022 \<le> e" "e \<le> 1023"
    and "of_int k - 1/2 < x / 2 powi (e - 52)" "x / 2 powi (e - 52) < of_int k + 1/2"
  shows "fl x = of_int k * 2 powi (e - 52)"
  unfolding fl_def quantum_eq [OF assms(1-4)]
  using assms(5,6) by (simp add: round_half_even_eq)

lemma fl_eq_tie:
  assumes "2 powi e \<le> \<bar>x\<bar>" "\<bar>x\<bar> < 2 powi (e + 1)" "- 1022 \<le> e" "e \<le> 1023"
    and "x / 2 powi (e - 52) = of_int k + 1/2"
  shows "fl x = of_int (if even k then k else k + 1) * 2 powi (e - 52)"
  unfolding fl_def quantum_eq [OF assms(1-4)]
  using assms(5) by (simp add: round_half_even_tie)

lemma fl_zero: "fl 0 = 0"
  by (simp add: fl_def round_half_even_def)

text \<open>Small whole numbers and one half are doubles.\<close>

lemma fl_half: "fl (1 / 2) = 1 / 2"
  using fl_eq [of "- 1" "1 / 2" "4503599627370496"] by simp

lemma fl_two: "fl 2 = 2"
  using fl_eq [of "1" "2" "4503599627370496"] by simp

lemma fl_three: "fl 3 = 3"
  using fl_eq [of "1" "3" "6755399441055744"] by simp

lemma fl_fifty: "fl 50 = 50"
  using fl_eq [of "5" "50" "7036874417766400"] by simp

lemma fl_sixty_five: "fl 65 = 65"
  using fl_eq [of "6" "65" "4573968371548160"] by simp

text \<open>
  The doubles \<open>0.6\<close>, \<open>0.7\<close> and \<open>0.2\<close>, and the roundings on the way from their sum to
  their mean and its percentage. The sum \<open>0.6 + 0.7\<close> lies half way between two doubles
  and goes to the even one.
\<close>

lemma fl_06: "fl (5404319552844595 / 9007199254740992) = 5404319552844595 / 9007199254740992"
  using fl_eq [of "- 1" "5404319552844595 / 9007199254740992" "5404319552844595"] by simp







text \<open>The roundings on the way from the scores \<open>0.5\<close> and \<open>0.8\<close> to their means.\<close>

lemma fl_13_10: "fl (13 / 10) = 5854679515581645 / 4503599627370496"
  using fl_eq [of "0" "13 / 10" "5854679515581645"] by simp

lemma fl_bank_mean: "fl (5854679515581645 / 9007199254740992) = 5854679515581645 / 9007199254740992"
  using fl_eq [of "- 1" "5854679515581645 / 9007199254740992" "5854679515581645"] by simp

lemma fl_bank_percent: "fl (146366987889541125 / 2251799813685248) = 65"
  using fl_eq [of "6" "146366987889541125 / 2251799813685248" "4573968371548160"] by simp

lemma fl_bank_third: "fl (1951559838527215 / 4503599627370496) = 1951559838527215 / 4503599627370496"
  using fl_eq [of "- 2" "1951559838527215 / 4503599627370496" "7806239354108860"] by simp

lemma fl_bank_third_percent:
  "fl (48788995963180375 / 1125899906842624) = 6098624495397547 / 140737488355328"
  using fl_eq [of "5" "48788995963180375 / 1125899906842624" "6098624495397547"] by simp

section \<open>The aggregator\<close>

lemma inner_reasons_foldl:
  "foldl (\<lambda>acc' reason. acc' @ [prefixed name reason]) acc reasons
     = acc @ map (prefixed name) reasons"
  by (induction reasons arbitrary: acc) simp_all

lemma outer_reasons_foldl:
  "foldl (\<lambda>acc result.
            foldl (\<lambda>acc' reason. acc' @ [prefixed (agent result) reason]) acc
                  (fraud_reasons result)) acc rs
     = acc @ concat (map (\<lambda>r. map (prefixed (agent r)) (fraud_reasons r)) rs)"
  by (induction rs arbitrary: acc) (simp_all add: inner_reasons_foldl)

lemma all_reasons_concat:
  "all_reasons rs = concat (map (\<lambda>r. map (prefixed (agent r)) (fraud_reasons r)) rs)"
  by (simp add: all_reasons_def outer_reasons_foldl)



text \<open>
  C9: the aggregator applied to the empty sequence of results returns the verdict
  not fraudulent, confidence 0, total risk score 0, no reasons.
\<close>

theorem aggregate_empty:
  "aggregate_results [] =
     \<lparr>is_fraudulent = False, confidence = 0, total_risk_score = 0, aggregated_reasons = []\<rparr>"
  by (simp add: aggregate_results_def)

text \<open>
  C5: for every sequence of results, the aggregated reasons are the concatenation, in the
  order of the sequence, of each result's reasons, each prefixed by the name of its scorer
  in square brackets and a space.
\<close>

theorem aggregated_reasons_concat:
  "aggregated_reasons (aggregate_results rs)
     = concat (map (\<lambda>r. map (\<lambda>reason. ''['' @ agent r @ ''] '' @ reason) (fraud_reasons r)) rs)"
  by (simp add: aggregate_results_def Let_def all_reasons_concat prefixed_def [abs_def])




text \<open>
  The same three scores in another order: \<open>0.6 + 0.2\<close> rounds to \<open>0.8\<close>, the sum is \<open>1.5\<close>
  and the average is \<open>0.5\<close>, at the threshold. The verdict depends on the order of the
  results, as it does in the code.
\<close>

lemma fl_06_plus_02:
  "fl (14411518807585587 / 18014398509481984) = 3602879701896397 / 4503599627370496"
  using fl_eq_tie [of "- 1" "14411518807585587 / 18014398509481984" "7205759403792793"] by simp

lemma fl_three_halves: "fl (3 / 2) = 3 / 2"
  using fl_eq [of "0" "3 / 2" "6755399441055744"] by simp

lemma reordered_aggregate:
  "aggregate_results [score_06, score_02, score_07] =
     \<lparr>is_fraudulent = True, confidence = 50, total_risk_score = 1/2,
      aggregated_reasons = []\<rparr>"
proof -
  have whole: "round_half_even 5000 = 5000" "round_half_even 500 = 500"
    by (simp_all add: round_half_even_def)
  show ?thesis
    by (simp add: aggregate_results_def total_risk_def all_reasons_def threshold_def
          py_round_def float_add_def float_div_def float_mul_def float_of_nat_def
          fl_06 fl_06_plus_02 fl_three_halves fl_three fl_half fl_fifty whole
          score_06_def score_07_def score_02_def)
qed


section \<open>The scores of the three scorers\<close>

lemma flag_nonneg: "0 \<le> w \<Longrightarrow> 0 \<le> fst acc \<Longrightarrow> 0 \<le> fst (flag c w r acc)"
  by (simp add: flag_def)

lemma mk_result_range:
  "0 \<le> fst acc \<Longrightarrow> 0 \<le> risk_score (mk_result n acc) \<and> risk_score (mk_result n acc) \<le> 1"
  by (simp add: mk_result_def)

lemma amount_rules_nonneg: "0 \<le> fst (amount_rules a)"
  unfolding amount_rules_def by (intro flag_nonneg) simp_all

lemma geo_rules_nonneg: "0 \<le> fst (geo_rules sc rc)"
  unfolding geo_rules_def by (intro flag_nonneg) simp_all

lemma keyword_loop_nonneg: "0 \<le> fst acc \<Longrightarrow> 0 \<le> fst (keyword_loop ks t acc)"
  by (induction ks arbitrary: acc) (simp_all add: flag_nonneg)

lemma pattern_loop_nonneg:
  "pattern_loop ps sv rv acc = Inr acc' \<Longrightarrow> 0 \<le> fst acc \<Longrightarrow> 0 \<le> fst acc'"
proof (induction ps arbitrary: acc)
  case Nil
  then show ?case by simp
next
  case (Cons p ps)
  from Cons.prems(1) obtain hit
    where rec: "pattern_loop ps sv rv (flag hit (4/10) (bic_reason p) acc) = Inr acc'"
    by (auto split: sum.splits)
  have "0 \<le> fst (flag hit (4/10) (bic_reason p) acc)"
    using Cons.prems(2) by (simp add: flag_nonneg)
  then show ?case
    using Cons.IH [OF rec] by simp
qed

lemma same_bic_nonneg: "0 \<le> fst acc \<Longrightarrow> 0 \<le> fst (same_bic sv rv acc)"
  by (simp add: same_bic_def flag_nonneg)

lemma amount_analyze_range:
  "amount_analyze m = Inr r \<Longrightarrow> 0 \<le> risk_score r \<and> risk_score r \<le> 1"
  by (auto simp: amount_analyze_def amount_rules_nonneg split: sum.splits intro!: mk_result_range)

lemma pattern_analyze_range:
  assumes "pattern_analyze m = Inr r"
  shows "0 \<le> risk_score r \<and> risk_score r \<le> 1"
proof -
  from assms obtain acc
    where raw: "pattern_raw m = Inr acc" and r: "r = mk_result ''FraudPatternDetectionAgent'' acc"
    by (auto simp: pattern_analyze_def split: sum.splits)
  from raw obtain acc1 where bc: "bic_checks m = Inr acc1"
    and acc: "acc = keyword_loop suspicious_keywords (remittance_text m) acc1"
    by (auto simp: pattern_raw_def split: sum.splits)
  from bc obtain acc0 where
    pl: "pattern_loop high_risk_patterns (dict_get (sender_bic m) [])
           (dict_get (receiver_bic m) []) (0, []) = Inr acc0"
    and acc1: "acc1 = same_bic (dict_get (sender_bic m) []) (dict_get (receiver_bic m) []) acc0"
    by (auto simp: bic_checks_def Let_def split: sum.splits)
  have "0 \<le> fst acc0"
    using pattern_loop_nonneg [OF pl] by simp
  then have "0 \<le> fst acc1"
    unfolding acc1 by (rule same_bic_nonneg)
  then have "0 \<le> fst acc"
    unfolding acc by (rule keyword_loop_nonneg)
  then show ?thesis
    unfolding r by (rule mk_result_range)
qed

lemma geo_analyze_range:
  assumes "geo_analyze m = Inr r"
  shows "0 \<le> risk_score r \<and> risk_score r \<le> 1"
proof -
  from assms obtain acc
    where raw: "geo_raw m = Inr acc" and r: "r = mk_result ''FraudGeographicRiskAgent'' acc"
    by (auto simp: geo_analyze_def split: sum.splits)
  from raw obtain sc rc where "acc = geo_rules sc rc"
    by (auto simp: geo_raw_def split: sum.splits)
  then have "0 \<le> fst acc"
    by (simp add: geo_rules_nonneg)
  then show ?thesis
    unfolding r by (rule mk_result_range)
qed

lemma analyze_range:
  "analyze a m = Inr r \<Longrightarrow> 0 \<le> risk_score r \<and> risk_score r \<le> 1"
  by (cases a) (simp_all add: amount_analyze_range pattern_analyze_range geo_analyze_range)

lemma dict_get_string:
  "entry \<noteq> Some PyNone \<Longrightarrow> \<exists>s. dict_get entry d = PyStr s"
  by (cases entry; cases "the entry") (auto simp: dict_get_def)

text \<open>On two strings the pattern loop never raises, and it counts every pattern once.\<close>

lemma pattern_loop_strings:
  "pattern_loop ps (PyStr s) (PyStr r) acc
     = Inr (fst acc + 2/5 * of_nat (length (hits s r ps)), snd acc @ map bic_reason (hits s r ps))"
  by (induction ps arbitrary: acc)
     (auto simp: bic_matches_def flag_def hits_def algebra_simps)

lemma analyze_returns:
  assumes "sender_bic m \<noteq> Some PyNone" "receiver_bic m \<noteq> Some PyNone"
  shows "\<exists>r. analyze a m = Inr r"
proof -
  from assms obtain s r where s: "dict_get (sender_bic m) [] = PyStr s"
    and r: "dict_get (receiver_bic m) [] = PyStr r"
    using dict_get_string by blast
  have "\<exists>x. pattern_analyze m = Inr x"
    by (simp add: pattern_analyze_def pattern_raw_def bic_checks_def s r pattern_loop_strings)
  moreover have "\<exists>x. geo_analyze m = Inr x"
    by (simp add: geo_analyze_def geo_raw_def s r)
  moreover have "\<exists>x. amount_analyze m = Inr x"
    by (simp add: amount_analyze_def)
  ultimately show ?thesis
    by (cases a) simp_all
qed

text \<open>
  C6: for every record, the score that each of the three scorers returns lies between 0
  and 1. Whatever a scorer returns is in that range; and on a record whose two identifier
  codes are strings (or missing), each of the three scorers does return.
\<close>

theorem scorer_scores_in_unit_interval:
  "(\<forall>a \<in> set list_of_agents. \<forall>r. analyze a m = Inr r \<longrightarrow> 0 \<le> risk_score r \<and> risk_score r \<le> 1)
   \<and> (sender_bic m \<noteq> Some PyNone \<and> receiver_bic m \<noteq> Some PyNone \<longrightarrow>
        (\<forall>a \<in> set list_of_agents.
           \<exists>r. analyze a m = Inr r \<and> 0 \<le> risk_score r \<and> risk_score r \<le> 1))"
  using analyze_range analyze_returns by blast

theorem scorer_scores_in_unit_interval_witness:
  "sender_bic test_message \<noteq> Some PyNone \<and> receiver_bic test_message \<noteq> Some PyNone
   \<and> (\<exists>r. analyze FraudAmountDetectionAgent test_message = Inr r
          \<and> 0 \<le> risk_score r \<and> risk_score r \<le> 1)
   \<and> (\<exists>r. analyze FraudPatternDetectionAgent test_message = Inr r
          \<and> 0 \<le> risk_score r \<and> risk_score r \<le> 1)
   \<and> (\<exists>r. analyze FraudGeographicRiskAgent test_message = Inr r
          \<and> 0 \<le> risk_score r \<and> risk_score r \<le> 1)"
  using scorer_scores_in_unit_interval [of test_message]
  by (simp add: list_of_agents_def test_message_def new_message_def)

section \<open>An amount that cannot be parsed\<close>

lemma amount_rules_zero: "amount_rules 0 = (0, [])"
  by (simp add: amount_rules_def flag_def py_mod_def)

lemma py_float_zero: "py_float ''0'' = Inr 0"
  by (simp add: py_float_def is_digit_def digits_val_def digit_val_def)

lemma point_no_digit: "\<not> is_digit CHR ''.''"
  by (simp add: is_digit_def)

lemma py_float_points_only:
  assumes "\<forall>c \<in> set t. c = CHR ''.''"
  shows "py_float t = Inl ValueError"
proof (cases t)
  case Nil
  then show ?thesis by (simp add: py_float_def)
next
  case (Cons c cs)
  with assms have c: "c = CHR ''.''" and cs: "\<forall>d \<in> set cs. d = CHR ''.''"
    by auto
  have "list_all is_digit cs \<Longrightarrow> cs = []"
    using cs point_no_digit by (cases cs) auto
  then show ?thesis
    using Cons c point_no_digit by (auto simp: py_float_def)
qed

text \<open>A string with no digit leaves nothing to parse but decimal points.\<close>

lemma no_digit_unparseable:
  assumes "\<forall>c \<in> set s. \<not> is_digit c"
  shows "py_float (amount_chars s) = Inl ValueError"
  by (rule py_float_points_only) (use assms in \<open>auto simp: amount_chars_def\<close>)

lemma two_points_value_error:
  assumes "2 \<le> count_list t CHR ''.''"
  shows "py_float t = Inl ValueError"
proof -
  have cnt: "count_list (takeWhile is_digit t) CHR ''.'' = 0"
    using point_no_digit by (metis count_list_0_iff set_takeWhileD)
  have "count_list t CHR ''.'' =
          count_list (takeWhile is_digit t) CHR ''.'' + count_list (dropWhile is_digit t) CHR ''.''"
    by (metis count_list_append takeWhile_dropWhile_id)
  with assms cnt have d: "2 \<le> count_list (dropWhile is_digit t) CHR ''.''"
    by simp
  show ?thesis
  proof (cases "dropWhile is_digit t")
    case Nil
    with d show ?thesis by simp
  next
    case (Cons c fp)
    have "\<not> list_all is_digit fp" if "c = CHR ''.''"
    proof
      assume "list_all is_digit fp"
      then have "count_list fp CHR ''.'' = 0"
        using point_no_digit by (metis count_list_0_iff list_all_iff)
      with d Cons that show False by simp
    qed
    then show ?thesis
      using Cons by (auto simp: py_float_def Let_def)
  qed
qed

lemma count_amount_chars: "count_list (amount_chars s) CHR ''.'' = count_list s CHR ''.''"
  by (induction s) (simp_all add: amount_chars_def)

lemma two_points_unparseable:
  "2 \<le> count_list s CHR ''.'' \<Longrightarrow> py_float (amount_chars s) = Inl ValueError"
  by (simp add: two_points_value_error count_amount_chars)

lemma unparsed_amount_result:
  "parse_amount (dict_get (amount m) ''0'') = Inl e \<Longrightarrow> amount_analyze m = Inr zero_amount_result"
  by (simp add: amount_analyze_def mk_result_def zero_amount_result_def)

text \<open>
  C8: for every record whose amount is missing, empty, or a string that gives no number
  once only its digits and decimal points are kept (a string with no digit, a string with
  two decimal points), the amount scorer returns score 0 and no reasons, and raises
  nothing.
\<close>

theorem amount_unparseable_scores_zero:
  assumes "amount m = None
           \<or> (\<exists>s. amount m = Some (PyStr s)
                  \<and> (s = [] \<or> (\<forall>c \<in> set s. \<not> is_digit c) \<or> 2 \<le> count_list s CHR ''.''
                       \<or> py_float (amount_chars s) = Inl ValueError))"
  shows "amount_analyze m = Inr zero_amount_result"
proof (cases "amount m")
  case None
  then show ?thesis
    by (simp add: amount_analyze_def dict_get_def parse_amount_def amount_chars_def
          is_digit_def py_float_zero amount_rules_zero mk_result_def zero_amount_result_def)
next
  case (Some v)
  with assms obtain s where s: "amount m = Some (PyStr s)"
    and bad: "s = [] \<or> (\<forall>c \<in> set s. \<not> is_digit c) \<or> 2 \<le> count_list s CHR ''.''
              \<or> py_float (amount_chars s) = Inl ValueError"
    by auto
  have "py_float (amount_chars s) = Inl ValueError"
    using bad no_digit_unparseable two_points_unparseable by auto
  then have "parse_amount (dict_get (amount m) ''0'') = Inl ValueError"
    by (simp add: s dict_get_def parse_amount_def)
  then show ?thesis
    by (rule unparsed_amount_result)
qed

theorem amount_unparseable_scores_zero_witness:
  "amount bad_amount = Some (PyStr ''1.2.3 USD'')
   \<and> 2 \<le> count_list ''1.2.3 USD'' CHR ''.''
   \<and> amount_analyze bad_amount = Inr zero_amount_result"
  using amount_unparseable_scores_zero [of bad_amount]
  by (simp add: bad_amount_def new_message_def)

section \<open>A record without remittance text\<close>

lemma keyword_loop_empty_text:
  "[] \<notin> set ks \<Longrightarrow> keyword_loop ks [] acc = acc"
  by (induction ks arbitrary: acc) (auto simp: flag_def)

lemma remittance_text_missing:
  "remittance_info m = None \<or> remittance_info m = Some PyNone \<Longrightarrow> remittance_text m = []"
  by (auto simp: remittance_text_def dict_get_def lower_def)

text \<open>
  C10: for every record whose remittance text is missing or \<open>None\<close>, the pattern scorer
  reads it as the empty string: the keyword scan leaves score and reasons as they are, the
  scorer returns what the checks on the two BICs give (it raises only if they do), and
  that is the result for the same record with an empty remittance text.
\<close>

theorem missing_memo_is_empty:
  assumes "remittance_info m = None \<or> remittance_info m = Some PyNone"
  shows "remittance_text m = []
       \<and> keyword_loop suspicious_keywords (remittance_text m) acc = acc
       \<and> pattern_analyze m =
           (case bic_checks m of
              Inl e \<Rightarrow> Inl e
            | Inr checked \<Rightarrow> Inr (mk_result ''FraudPatternDetectionAgent'' checked))
       \<and> pattern_analyze m = pattern_analyze (m\<lparr>remittance_info := Some (PyStr [])\<rparr>)"
proof -
  have t: "remittance_text m = []"
    using assms by (rule remittance_text_missing)
  have k: "keyword_loop suspicious_keywords [] a = a" for a
    by (rule keyword_loop_empty_text) (simp add: suspicious_keywords_def)
  have t': "remittance_text (m\<lparr>remittance_info := Some (PyStr [])\<rparr>) = []"
    by (simp add: remittance_text_def dict_get_def lower_def)
  have b: "bic_checks (m\<lparr>remittance_info := Some (PyStr [])\<rparr>) = bic_checks m"
    by (simp add: bic_checks_def)
  show ?thesis
    by (simp add: t t' k b pattern_analyze_def pattern_raw_def split: sum.splits)
qed

lemma upper_TESTUS33: "upper ''TESTUS33'' = ''TESTUS33''"
  by (simp add: upper_def upper_char_def lower_letters_def upper_letters_def)

lemma upper_BANKGB22: "upper ''BANKGB22'' = ''BANKGB22''"
  by (simp add: upper_def upper_char_def lower_letters_def upper_letters_def)

lemma bic_checks_null_memo:
  "bic_checks null_memo = Inr (2/5, [''Test/fake pattern detected in BIC: TEST''])"
  by (simp add: null_memo_def new_message_def bic_checks_def dict_get_def
        high_risk_patterns_def bic_matches_def upper_TESTUS33 upper_BANKGB22
        flag_def same_bic_def bic_reason_def)

theorem missing_memo_is_empty_witness:
  "remittance_info null_memo = Some PyNone
   \<and> remittance_text null_memo = []
   \<and> pattern_analyze null_memo =
       Inr \<lparr>agent = ''FraudPatternDetectionAgent'', risk_score = 2/5,
            fraud_reasons = [''Test/fake pattern detected in BIC: TEST''],
            result_message_id = None, error = None\<rparr>"
proof -
  have memo: "remittance_info null_memo = Some PyNone"
    by (simp add: null_memo_def new_message_def)
  then have "remittance_info null_memo = None \<or> remittance_info null_memo = Some PyNone"
    by simp
  from missing_memo_is_empty [OF this, of "(0, [])"] memo show ?thesis
    by (simp add: bic_checks_null_memo mk_result_def)
qed

section \<open>A flagged substring in both identifier codes\<close>

lemma keyword_loop_eq:
  "keyword_loop ks t acc
     = (fst acc + 1/5 * of_nat (length (filter (\<lambda>k. contains k t) ks)),
        snd acc @ map keyword_reason (filter (\<lambda>k. contains k t) ks))"
  by (induction ks arbitrary: acc) (auto simp: flag_def algebra_simps)

text \<open>Score and reasons of the pattern scorer before the score is clamped.\<close>

lemma pattern_raw_strings:
  assumes "dict_get (sender_bic m) [] = PyStr s" "dict_get (receiver_bic m) [] = PyStr r"
  shows "pattern_raw m =
     Inr (2/5 * of_nat (length (hits s r high_risk_patterns))
            + (if s \<noteq> [] \<and> s = r then 1/2 else 0)
            + 1/5 * of_nat (length (filter (\<lambda>k. contains k (remittance_text m))
                                        suspicious_keywords)),
          map bic_reason (hits s r high_risk_patterns)
            @ (if s \<noteq> [] \<and> s = r then [''Same sender and receiver BIC''] else [])
            @ map keyword_reason (filter (\<lambda>k. contains k (remittance_text m))
                                    suspicious_keywords))"
  by (simp add: pattern_raw_def bic_checks_def assms pattern_loop_strings same_bic_def
        flag_def keyword_loop_eq)

lemma count_bic_reason_keywords: "count_list (map keyword_reason ks) (bic_reason p) = 0"
  by (induction ks) (simp_all add: keyword_reason_def bic_reason_def)

lemma bic_reason_inj: "bic_reason p = bic_reason q \<longleftrightarrow> p = q"
  by (simp add: bic_reason_def)

lemma count_bic_reason_hits:
  "distinct ps \<Longrightarrow> count_list (map bic_reason (filter P ps)) (bic_reason p)
     = (if p \<in> set ps \<and> P p then 1 else 0)"
  by (induction ps) (auto simp: bic_reason_inj)

text \<open>
  C2, as the code has it: for every record whose sender code and receiver code both
  contain the same flagged substring, the pattern scorer counts that substring once. Its
  reason occurs exactly once among the reasons, and the score is 0.4 for each flagged
  substring that occurs in either code, plus 0.5 for equal non-empty codes, plus 0.2 for
  each keyword in the remittance text, clamped to 1.
\<close>

theorem pattern_counted_once:
  assumes "dict_get (sender_bic m) [] = PyStr s" "dict_get (receiver_bic m) [] = PyStr r"
    and "p \<in> set high_risk_patterns" "contains p (upper s)" "contains p (upper r)"
  shows "\<exists>res. pattern_analyze m = Inr res
       \<and> count_list (fraud_reasons res) (bic_reason p) = 1
       \<and> risk_score res =
           min (2/5 * of_nat (length (filter (\<lambda>q. contains q (upper s) \<or> contains q (upper r))
                                         high_risk_patterns))
                + (if s \<noteq> [] \<and> s = r then 1/2 else 0)
                + 1/5 * of_nat (length (filter (\<lambda>k. contains k (remittance_text m))
                                            suspicious_keywords))) 1"
proof -
  have d: "distinct high_risk_patterns"
    by (simp add: high_risk_patterns_def)
  have c: "count_list (map bic_reason (hits s r high_risk_patterns)) (bic_reason p) = 1"
    unfolding hits_def using assms(3-5) by (simp add: count_bic_reason_hits [OF d])
  have same: "bic_reason p \<noteq> ''Same sender and receiver BIC''"
    by (simp add: bic_reason_def)
  show ?thesis
    using c same
    by (simp add: pattern_analyze_def pattern_raw_strings [OF assms(1,2)] mk_result_def
          count_bic_reason_keywords hits_def)
qed

lemma upper_TESTGB22: "upper ''TESTGB22'' = ''TESTGB22''"
  by (simp add: upper_def upper_char_def lower_letters_def upper_letters_def)

lemma lower_invoice: "lower ''invoice 42'' = ''invoice 42''"
  by (simp add: lower_def lower_char_def lower_letters_def upper_letters_def)

theorem pattern_counted_once_witness:
  "dict_get (sender_bic both_test) [] = PyStr ''TESTUS33''
   \<and> dict_get (receiver_bic both_test) [] = PyStr ''TESTGB22''
   \<and> ''TEST'' \<in> set high_risk_patterns
   \<and> contains ''TEST'' (upper ''TESTUS33'') \<and> contains ''TEST'' (upper ''TESTGB22'')
   \<and> (\<exists>res. pattern_analyze both_test = Inr res
          \<and> count_list (fraud_reasons res) (bic_reason ''TEST'') = 1
          \<and> risk_score res = 2/5)"
  using pattern_counted_once [of both_test "''TESTUS33''" "''TESTGB22''" "''TEST''"]
  by (simp add: both_test_def new_message_def dict_get_def high_risk_patterns_def
        suspicious_keywords_def upper_TESTUS33 upper_TESTGB22 remittance_text_def
        lower_invoice)

text \<open>
  Both codes of this record contain \<open>TEST\<close>, yet the scorer returns 0.4, not 0.8, and one
  reason that names \<open>TEST\<close>, not two.
\<close>

theorem both_sides_counterexample:
  "contains ''TEST'' (upper ''TESTUS33'') \<and> contains ''TEST'' (upper ''TESTGB22'')
   \<and> pattern_analyze both_test =
       Inr \<lparr>agent = ''FraudPatternDetectionAgent'', risk_score = 2/5,
            fraud_reasons = [''Test/fake pattern detected in BIC: TEST''],
            result_message_id = None, error = None\<rparr>"
  by (simp add: both_test_def new_message_def pattern_analyze_def pattern_raw_def
        bic_checks_def dict_get_def high_risk_patterns_def suspicious_keywords_def
        bic_matches_def upper_TESTUS33 upper_TESTGB22 flag_def same_bic_def
        remittance_text_def lower_invoice bic_reason_def mk_result_def)

section \<open>The asymmetry bonus of the geographic scorer\<close>

lemma high_medium_disjoint: "c \<in> high_risk_countries \<Longrightarrow> c \<notin> medium_risk_countries"
  by (auto simp: high_risk_countries_def medium_risk_countries_def)

lemma empty_not_risky: "[] \<notin> high_risk_countries" "[] \<notin> medium_risk_countries"
  by (simp_all add: high_risk_countries_def medium_risk_countries_def)

lemma geo_rules_score:
  "fst (geo_rules sc rc) = side_scores sc rc + (if bonus_applies sc rc then 3/10 else 0)"
  by (simp add: geo_rules_def flag_def side_scores_def bonus_applies_def unusual_combination_def)

lemma geo_rules_bonus_reason:
  "combination_reason sc rc \<in> set (snd (geo_rules sc rc)) \<longleftrightarrow> bonus_applies sc rc"
  by (simp add: geo_rules_def flag_def bonus_applies_def unusual_combination_def
        combination_reason_def)

text \<open>
  C7, as the code has it: for every record, the geographic scorer adds the bonus of 0.3
  exactly when both extracted country codes are non-empty, one of them is in the high-risk
  set and the other is in neither set; in particular, when the sender's country code is in
  the high-risk set and the receiver's is non-empty and in neither set, the score is 0.7.
\<close>

theorem asymmetry_bonus_guarded:
  assumes "country_code (dict_get (sender_bic m) []) = Inr sc"
    and "country_code (dict_get (receiver_bic m) []) = Inr rc"
  shows "\<exists>res. geo_analyze m = Inr res
       \<and> (combination_reason sc rc \<in> set (fraud_reasons res) \<longleftrightarrow> bonus_applies sc rc)
       \<and> risk_score res = min (side_scores sc rc + (if bonus_applies sc rc then 3/10 else 0)) 1
       \<and> (sc \<in> high_risk_countries \<and> rc \<noteq> [] \<and> rc \<notin> high_risk_countries
            \<and> rc \<notin> medium_risk_countries \<longrightarrow> risk_score res = 7/10)"
proof -
  have res: "geo_analyze m = Inr (mk_result ''FraudGeographicRiskAgent'' (geo_rules sc rc))"
    by (simp add: geo_analyze_def geo_raw_def assms)
  have seven: "side_scores sc rc + (if bonus_applies sc rc then 3/10 else 0) = 7/10"
    if "sc \<in> high_risk_countries" "rc \<noteq> []" "rc \<notin> high_risk_countries"
       "rc \<notin> medium_risk_countries"
  proof -
    from that(1) have "sc \<notin> medium_risk_countries" "sc \<noteq> []"
      using high_medium_disjoint empty_not_risky by auto
    with that show ?thesis
      by (simp add: side_scores_def bonus_applies_def)
  qed
  show ?thesis
    using seven
    by (auto simp: res mk_result_def geo_rules_score geo_rules_bonus_reason)
qed

lemma country_BANKIRXX: "country_code (PyStr ''BANKIRXX'') = Inr ''IR''"
  by (simp add: upper_def upper_char_def lower_letters_def upper_letters_def)

lemma country_BANKUS33: "country_code (PyStr ''BANKUS33'') = Inr ''US''"
  by (simp add: upper_def upper_char_def lower_letters_def upper_letters_def)

theorem asymmetry_bonus_guarded_witness:
  "country_code (dict_get (sender_bic plain_receiver) []) = Inr ''IR''
   \<and> country_code (dict_get (receiver_bic plain_receiver) []) = Inr ''US''
   \<and> bonus_applies ''IR'' ''US''
   \<and> (\<exists>res. geo_analyze plain_receiver = Inr res
         \<and> combination_reason ''IR'' ''US'' \<in> set (fraud_reasons res)
         \<and> risk_score res = 7/10)"
  using asymmetry_bonus_guarded [of plain_receiver "''IR''" "''US''"]
  by (auto simp: plain_receiver_def new_message_def dict_get_def country_BANKIRXX
        country_BANKUS33 bonus_applies_def high_risk_countries_def medium_risk_countries_def
        simp del: country_code.simps)

text \<open>
  The sender's country code \<open>IR\<close> is in the high-risk set and the receiver's extracted
  code, the empty string of a code shorter than six characters, is in neither set; the
  score is 0.4 and there is no bonus.
\<close>

theorem asymmetry_bonus_counterexample:
  "country_code (dict_get (sender_bic short_receiver) []) = Inr ''IR''
   \<and> ''IR'' \<in> high_risk_countries
   \<and> country_code (dict_get (receiver_bic short_receiver) []) = Inr []
   \<and> [] \<notin> high_risk_countries \<and> [] \<notin> medium_risk_countries
   \<and> geo_analyze short_receiver =
       Inr \<lparr>agent = ''FraudGeographicRiskAgent'', risk_score = 2/5,
            fraud_reasons = [''High-risk sender country: IR''],
            result_message_id = None, error = None\<rparr>"
  by (simp add: short_receiver_def new_message_def dict_get_def upper_def upper_char_def
        lower_letters_def upper_letters_def geo_analyze_def geo_raw_def geo_rules_def flag_def
        unusual_combination_def high_risk_countries_def medium_risk_countries_def mk_result_def)

section \<open>The coordinator\<close>

text \<open>The wait loop keeps the results of the futures that are done in time, in order.\<close>

lemma collect_results_filter: "collect_results fs = map task_value (filter in_time fs)"
  by (induction fs) (simp_all add: future_result_def)

lemma collect_all_in_time:
  "collect_results (submit_agents all_in_time i m) = map (process_message m) list_of_agents"
  by (simp add: collect_results_filter submit_agents_def all_in_time_def list_of_agents_def)

text \<open>
  A scorer that raises inside its task does get a slot: \<open>_process_message\<close> returns a
  result with the scorer's name, score 0 and no reasons.
\<close>

lemma process_message_raises:
  "analyze a m = Inl e \<Longrightarrow> process_message m a = (zero_slot a)\<lparr>error := Some e\<rparr>"
  by (simp add: process_message_def zero_slot_def)

lemma dict_set_fresh: "k \<notin> fst ` set d \<Longrightarrow> dict_set k v d = d @ [(k, v)]"
  by (induction d) auto

lemma submit_all_distinct:
  assumes "\<forall>m \<in> set ms. message_id m \<noteq> None" "distinct (map message_id ms)"
    and "\<forall>m \<in> set ms. the (message_id m) \<notin> fst ` set d"
  shows "submit_all sched i ms d =
     Inr (d @ map (\<lambda>(j, m). (the (message_id m), m, submit_agents sched j m)) (enumerate i ms))"
  using assms
proof (induction ms arbitrary: i d)
  case Nil
  then show ?case by simp
next
  case (Cons m ms)
  from Cons.prems(1) obtain k where k: "message_id m = Some k"
    by auto
  let ?d = "d @ [(k, m, submit_agents sched i m)]"
  have fresh: "dict_set k (m, submit_agents sched i m) d = ?d"
    using Cons.prems(3) k by (simp add: dict_set_fresh)
  have "\<forall>m' \<in> set ms. the (message_id m') \<notin> fst ` set ?d"
  proof
    fix m' assume m': "m' \<in> set ms"
    from Cons.prems(1) m' obtain k' where k': "message_id m' = Some k'"
      by auto
    from Cons.prems(2) have "message_id m \<notin> message_id ` set ms"
      by simp
    with m' have "message_id m' \<noteq> message_id m"
      by (metis imageI)
    then have ne: "k' \<noteq> k"
      using k k' by simp
    from Cons.prems(3) m' have "the (message_id m') \<notin> fst ` set d"
      by simp
    then have "k' \<notin> fst ` set d"
      using k' by simp
    then show "the (message_id m') \<notin> fst ` set ?d"
      using ne k' by simp
  qed
  then have "submit_all sched (Suc i) ms ?d =
     Inr (?d @ map (\<lambda>(j, m). (the (message_id m), m, submit_agents sched j m))
                   (enumerate (Suc i) ms))"
    using Cons.IH [of ?d "Suc i"] Cons.prems(1,2) by simp
  then show ?case
    by (simp add: k fresh)
qed

text \<open>
  When every record of the batch has an identifier and no two records share one, the
  coordinator returns one annotated record per input record, in the order of the input.
\<close>

lemma batch_distinct_ids:
  assumes "\<forall>m \<in> set ms. message_id m \<noteq> None" "distinct (map message_id ms)"
  shows "process_batch_parallel sched ms =
     Inr (map (\<lambda>(j, m). annotate m (collect_results (submit_agents sched j m)))
              (enumerate 0 ms))"
  using submit_all_distinct [OF assms, of "[]" sched 0]
  by (simp add: process_batch_parallel_def case_prod_unfold)

lemma upper_BANKIRXX: "upper ''BANKIRXX'' = ''BANKIRXX''"
  by (simp add: upper_def upper_char_def lower_letters_def upper_letters_def)

lemma pattern_same_bank:
  "pattern_analyze same_bank =
     Inr (mk_result ''FraudPatternDetectionAgent'' (1/2, [''Same sender and receiver BIC'']))"
  by (simp add: same_bank_def new_message_def pattern_analyze_def pattern_raw_def
        bic_checks_def dict_get_def high_risk_patterns_def suspicious_keywords_def
        bic_matches_def upper_BANKIRXX flag_def same_bic_def remittance_text_def lower_def)

lemma geo_same_bank:
  "geo_analyze same_bank =
     Inr (mk_result ''FraudGeographicRiskAgent''
            (4/5, [''High-risk sender country: IR'', ''High-risk receiver country: IR'']))"
  by (simp add: same_bank_def new_message_def dict_get_def upper_def upper_char_def
        lower_letters_def upper_letters_def geo_analyze_def geo_raw_def geo_rules_def flag_def
        unusual_combination_def high_risk_countries_def medium_risk_countries_def)

lemma collect_same_bank:
  "collect_results (submit_agents amount_times_out 0 same_bank)
     = [same_bank_pattern, same_bank_geo]"
proof -
  have "message_id same_bank = Some (PyStr ''M5'')"
    by (simp add: same_bank_def new_message_def)
  then show ?thesis
    by (simp add: collect_results_filter submit_agents_def list_of_agents_def
          amount_times_out_def process_message_def pattern_same_bank geo_same_bank
          mk_result_def dict_get_def same_bank_pattern_def same_bank_geo_def)
qed

text \<open>
  C1: a scorer whose wait times out should still have a slot with score 0 in the results
  that are aggregated. Here the wait for the amount scorer times out on a batch of one
  record: two results are aggregated, not three, their mean is 0.65 and the record is
  FRAUDULENT with score 65, while with the slot of score 0 the mean of the three is below
  the threshold, with the doubles \<open>43.33\<close> and \<open>0.433\<close> as confidence and total risk score.
\<close>

theorem timed_out_slot_dropped:
  "process_batch_parallel amount_times_out [same_bank] =
     Inr [same_bank\<lparr>fraud_status := Some ''FRAUDULENT'',
                    fraud_score := Some 65,
                    message_fraud_reasons :=
                      Some [''[FraudPatternDetectionAgent] Same sender and receiver BIC'',
                            ''[FraudGeographicRiskAgent] High-risk sender country: IR'',
                            ''[FraudGeographicRiskAgent] High-risk receiver country: IR''],
                    fraud_analysis := Some [same_bank_pattern, same_bank_geo]\<rparr>]
   \<and> length [same_bank_pattern, same_bank_geo] < length list_of_agents
   \<and> aggregate_results [zero_slot FraudAmountDetectionAgent, same_bank_pattern, same_bank_geo] =
       \<lparr>is_fraudulent = False, confidence = fl (4333/100),
        total_risk_score = fl (433/1000),
        aggregated_reasons =
          [''[FraudPatternDetectionAgent] Same sender and receiver BIC'',
           ''[FraudGeographicRiskAgent] High-risk sender country: IR'',
           ''[FraudGeographicRiskAgent] High-risk receiver country: IR'']\<rparr>"
proof -
  have ident: "message_id same_bank = Some (PyStr ''M5'')"
    by (simp add: same_bank_def new_message_def)
  have rhe: "round_half_even (731834939447705625 / 1125899906842624) = 650"
    "round_half_even (152465612384938675 / 35184372088832) = 4333"
    "round_half_even (243944979815901875 / 562949953421312) = 433"
    by (rule round_half_even_eq; simp)+
  have whole: "round_half_even 6500 = 6500"
    by (simp add: round_half_even_def)
  have agg2: "aggregate_results [same_bank_pattern, same_bank_geo] =
       \<lparr>is_fraudulent = True, confidence = 65, total_risk_score = fl (13/20),
        aggregated_reasons =
          [''[FraudPatternDetectionAgent] Same sender and receiver BIC'',
           ''[FraudGeographicRiskAgent] High-risk sender country: IR'',
           ''[FraudGeographicRiskAgent] High-risk receiver country: IR'']\<rparr>"
    by (simp add: aggregate_results_def total_risk_def all_reasons_def prefixed_def
          threshold_def py_round_def float_add_def float_div_def float_mul_def
          float_of_nat_def fl_half fl_13_10 fl_two fl_bank_mean fl_bank_percent
          fl_sixty_five rhe whole same_bank_pattern_def same_bank_geo_def)
  have agg3: "aggregate_results
                [zero_slot FraudAmountDetectionAgent, same_bank_pattern, same_bank_geo] =
       \<lparr>is_fraudulent = False, confidence = fl (4333/100), total_risk_score = fl (433/1000),
        aggregated_reasons =
          [''[FraudPatternDetectionAgent] Same sender and receiver BIC'',
           ''[FraudGeographicRiskAgent] High-risk sender country: IR'',
           ''[FraudGeographicRiskAgent] High-risk receiver country: IR'']\<rparr>"
    by (simp add: aggregate_results_def total_risk_def all_reasons_def prefixed_def
          threshold_def py_round_def float_add_def float_div_def float_mul_def
          float_of_nat_def fl_zero fl_half fl_13_10 fl_three fl_bank_third
          fl_bank_third_percent rhe same_bank_pattern_def same_bank_geo_def zero_slot_def)
  have "process_batch_parallel amount_times_out [same_bank] =
          Inr [annotate same_bank [same_bank_pattern, same_bank_geo]]"
    by (simp add: process_batch_parallel_def ident collect_same_bank)
  then show ?thesis
    by (simp add: annotate_def agg2 agg3 list_of_agents_def)
qed

text \<open>
  C3: the coordinator should return one annotated record per input record, in input
  order, also when two records carry the same identifier or a record has none. Here two
  records share the identifier \<open>M6\<close> and only the second one comes back; and a batch with
  a record that has no identifier ends in a KeyError, with no record returned.
\<close>

theorem duplicate_id_drops_record:
  "process_batch_parallel all_in_time [dup_first, dup_second]
     = Inr [annotate dup_second (map (process_message dup_second) list_of_agents)]
   \<and> process_batch_parallel all_in_time [dup_first, no_id] = Inl KeyError"
  by (simp add: process_batch_parallel_def collect_all_in_time
        dup_first_def dup_second_def no_id_def new_message_def)

end
